theory Spec2Isabelle
  imports Complex_Main "HOL-Library.Sublist"
begin

section \<open>Company search and enrichment (enrich\_api.py): a shallow embedding\<close>

text \<open>
  The definitions below follow \<^verbatim>\<open>src/enrich_api.py\<close>: \<^verbatim>\<open>clean_address\<close>,
  \<^verbatim>\<open>addresses_match\<close> and \<^verbatim>\<open>search_company\<close>. The last one is a single long Python
  function; its phases (name simplification, primary search, search by address, choice of
  the best result, officers, assembly of the result) are separate definitions here, each
  with the source lines it embeds.

  Modelling decisions, valid for the whole theory:
  \<^item> A Python \<^verbatim>\<open>str\<close> is a \<^typ>\<open>string\<close>, one \<^typ>\<open>char\<close> per code point. A \<^typ>\<open>char\<close>
    has eight bits, so the strings of the model are the strings over U+0000 to U+00FF
    (Latin-1); larger code points are outside the model.
  \<^item> The character classes (\<^verbatim>\<open>str.isspace\<close>, \<^verbatim>\<open>\s\<close>, \<^verbatim>\<open>\w\<close>, \<^verbatim>\<open>\d\<close>, \<^verbatim>\<open>str.isdigit\<close>) and the case
    mappings (\<^verbatim>\<open>str.upper\<close>, \<^verbatim>\<open>str.lower\<close>) are those of CPython 3 on that range. Two
    letters of the range have an upper-case form outside it (U+00FF gives U+0178, U+00B5
    gives U+039C); both forms are letters, and the model keeps the lower-case code point
    as the name of its upper-case form.
  \<^item> The HTTP transport, the JSON decoding and the clock are parameters.
  \<^item> Exceptions are values of type \<open>exn\<close>; a fallible computation has type \<open>exn + 'a\<close>.
\<close>

subsection \<open>Characters\<close>

definition code_point :: "char \<Rightarrow> nat" where
  "code_point c = of_char c"

text \<open>\<^verbatim>\<open>str.isspace\<close>, also the class \<^verbatim>\<open>\s\<close> and what \<^verbatim>\<open>strip()\<close> and \<^verbatim>\<open>split()\<close> remove.\<close>

definition py_isspace :: "char \<Rightarrow> bool" where
  "py_isspace c =
     (let n = code_point c
      in (9 \<le> n \<and> n \<le> 13) \<or> (28 \<le> n \<and> n \<le> 32) \<or> n = 133 \<or> n = 160)"

text \<open>\<^verbatim>\<open>str.isalnum\<close>: letters, decimal digits and the other numeric characters.\<close>

definition py_isalnum :: "char \<Rightarrow> bool" where
  "py_isalnum c =
     (let n = code_point c
      in (48 \<le> n \<and> n \<le> 57) \<or> (65 \<le> n \<and> n \<le> 90) \<or> (97 \<le> n \<and> n \<le> 122)
         \<or> n = 170 \<or> n = 178 \<or> n = 179 \<or> n = 181 \<or> n = 185 \<or> n = 186
         \<or> (188 \<le> n \<and> n \<le> 190) \<or> (192 \<le> n \<and> n \<le> 214)
         \<or> (216 \<le> n \<and> n \<le> 246) \<or> (248 \<le> n \<and> n \<le> 255))"

text \<open>The class \<^verbatim>\<open>\w\<close> of \<^verbatim>\<open>re\<close> on \<^verbatim>\<open>str\<close> patterns: alphanumeric or the underscore.\<close>

definition is_word :: "char \<Rightarrow> bool" where
  "is_word c = (py_isalnum c \<or> c = CHR ''_'')"

text \<open>The class \<^verbatim>\<open>\d\<close>: decimal digits.\<close>

definition py_isdecimal :: "char \<Rightarrow> bool" where
  "py_isdecimal c = (let n = code_point c in 48 \<le> n \<and> n \<le> 57)"

text \<open>\<^verbatim>\<open>str.isdigit\<close>: decimal digits and the superscript digits.\<close>

definition py_isdigit :: "char \<Rightarrow> bool" where
  "py_isdigit c =
     (let n = code_point c in (48 \<le> n \<and> n \<le> 57) \<or> n = 178 \<or> n = 179 \<or> n = 185)"

text \<open>\<^verbatim>\<open>str.upper\<close> on one character; U+00DF becomes \<^verbatim>\<open>SS\<close>.\<close>

definition py_upper_char :: "char \<Rightarrow> string" where
  "py_upper_char c =
     (let n = code_point c
      in if (97 \<le> n \<and> n \<le> 122) \<or> (224 \<le> n \<and> n \<le> 254 \<and> n \<noteq> 247)
         then [char_of (n - 32)]
         else if n = 223 then ''SS''
         else [c])"

definition py_lower_char :: "char \<Rightarrow> string" where
  "py_lower_char c =
     (let n = code_point c
      in if (65 \<le> n \<and> n \<le> 90) \<or> (192 \<le> n \<and> n \<le> 222 \<and> n \<noteq> 215)
         then [char_of (n + 32)]
         else [c])"

definition py_upper :: "string \<Rightarrow> string" where
  "py_upper s = concat (map py_upper_char s)"

definition py_lower :: "string \<Rightarrow> string" where
  "py_lower s = concat (map py_lower_char s)"

subsection \<open>String operations\<close>

definition lstrip :: "string \<Rightarrow> string" where
  "lstrip s = dropWhile py_isspace s"

definition rstrip :: "string \<Rightarrow> string" where
  "rstrip s = rev (dropWhile py_isspace (rev s))"

text \<open>\<^verbatim>\<open>s.strip()\<close>\<close>

definition strip :: "string \<Rightarrow> string" where
  "strip s = rstrip (lstrip s)"

text \<open>\<^verbatim>\<open>s.split()\<close>: the maximal runs of characters that are not whitespace.\<close>

function split_ws :: "string \<Rightarrow> string list" where
  "split_ws s =
     (case dropWhile py_isspace s of
        [] \<Rightarrow> []
      | c # cs \<Rightarrow>
          (c # takeWhile (\<lambda>x. \<not> py_isspace x) cs)
            # split_ws (dropWhile (\<lambda>x. \<not> py_isspace x) cs))"
  by pat_completeness auto
termination
proof (relation "measure length", goal_cases)
  case 1
  show ?case by simp
next
  case (2 s c cs)
  have "length (dropWhile (\<lambda>x. \<not> py_isspace x) cs) \<le> length cs"
    by (rule length_dropWhile_le)
  moreover have "length (c # cs) \<le> length s"
    using length_dropWhile_le [of py_isspace s] 2 by simp
  ultimately show ?case by simp
qed

declare split_ws.simps [simp del]

text \<open>\<^verbatim>\<open>sub in s\<close> on strings.\<close>

fun contains :: "string \<Rightarrow> string \<Rightarrow> bool" where
  "contains [] sub = (sub = [])"
| "contains (c # cs) sub = (prefix sub (c # cs) \<or> contains cs sub)"

text \<open>\<^verbatim>\<open>s.split(sep)[0]\<close> for a separator that is not empty: the text before its first
  occurrence, the whole of \<open>s\<close> when there is none.\<close>

fun before_sep :: "string \<Rightarrow> string \<Rightarrow> string" where
  "before_sep sep [] = []"
| "before_sep sep (c # cs) = (if prefix sep (c # cs) then [] else c # before_sep sep cs)"

text \<open>\<^verbatim>\<open>' '.join(ws)\<close>\<close>

fun join_sp :: "string list \<Rightarrow> string" where
  "join_sp [] = []"
| "join_sp [w] = w"
| "join_sp (w # v # ws) = w @ CHR '' '' # join_sp (v # ws)"

subsection \<open>The regular expressions of the source\<close>

text \<open>
  \<^verbatim>\<open>\b\<close> holds at a position when exactly one of the characters before and after it is a
  word character; the two ends of the string count as not a word character.
  \<open>prev_word\<close> says whether the character before the position is a word character.
\<close>

definition word_boundary :: "bool \<Rightarrow> string \<Rightarrow> bool" where
  "word_boundary prev_word rest =
     (prev_word \<noteq> (case rest of [] \<Rightarrow> False | d # _ \<Rightarrow> is_word d))"

text \<open>
  \<^verbatim>\<open>re.sub(r'\bW\b', R, s)\<close> for a literal word \<open>W\<close>: the scan goes from left to right; where
  the pattern matches, the replacement is written and the scan goes on after the match.
\<close>

fun re_sub_word_from :: "string \<Rightarrow> string \<Rightarrow> bool \<Rightarrow> string \<Rightarrow> string" where
  "re_sub_word_from w r prev_word [] = []"
| "re_sub_word_from w r prev_word (c # cs) =
     (if w \<noteq> [] \<and> word_boundary prev_word (c # cs) \<and> prefix w (c # cs)
         \<and> word_boundary (is_word (last w)) (drop (length w) (c # cs))
      then r @ re_sub_word_from w r (is_word (last w)) (drop (length w - 1) cs)
      else c # re_sub_word_from w r (is_word c) cs)"

definition re_sub_word :: "string \<Rightarrow> string \<Rightarrow> string \<Rightarrow> string" where
  "re_sub_word w r s = re_sub_word_from w r False s"

text \<open>\<^verbatim>\<open>re.sub(r'[^\w\s]', ' ', s)\<close>\<close>

definition re_sub_special :: "string \<Rightarrow> string" where
  "re_sub_special s = map (\<lambda>c. if is_word c \<or> py_isspace c then c else CHR '' '') s"

text \<open>\<^verbatim>\<open>re.sub(r'\s+', ' ', s)\<close>\<close>

function re_sub_spaces :: "string \<Rightarrow> string" where
  "re_sub_spaces [] = []"
| "re_sub_spaces (c # cs) =
     (if py_isspace c then CHR '' '' # re_sub_spaces (dropWhile py_isspace cs)
      else c # re_sub_spaces cs)"
  by pat_completeness auto
termination
  by (relation "measure length") (auto simp: less_Suc_eq_le length_dropWhile_le)

text \<open>
  \<^verbatim>\<open>re.search(r'\b\d{5}\b', s)\<close>: the text of the first match (\<^verbatim>\<open>group(0)\<close>), or \<open>None\<close>.
\<close>

fun re_search_cp_from :: "bool \<Rightarrow> string \<Rightarrow> string option" where
  "re_search_cp_from prev_word [] = None"
| "re_search_cp_from prev_word (c # cs) =
     (let m = take 5 (c # cs)
      in if word_boundary prev_word (c # cs) \<and> length m = 5 \<and> list_all py_isdecimal m
            \<and> word_boundary (is_word (last m)) (drop 5 (c # cs))
         then Some m
         else re_search_cp_from (is_word c) cs)"

definition re_search_cp :: "string \<Rightarrow> string option" where
  "re_search_cp s = re_search_cp_from False s"

subsection \<open>\<^verbatim>\<open>clean_address\<close> (lines 24 to 43)\<close>

text \<open>
  The argument is a string, for which \<^verbatim>\<open>pd.isna\<close> is false and \<^verbatim>\<open>str\<close> is the identity.
\<close>

definition clean_address :: "string \<Rightarrow> string" where
  "clean_address address =
     (if address = [] then []
      else
        let address = py_upper address;
            address = re_sub_word ''BOULEVARD'' ''BD'' address;
            address = re_sub_word ''AVENUE'' ''AV'' address;
            address = re_sub_word ''ROUTE'' ''RTE'' address;
            address = re_sub_word ''RUE'' ''R'' address;
            address = re_sub_word ''SAINT'' ''ST'' address;
            address = re_sub_word ''SAINTE'' ''STE'' address;
            address = re_sub_special address;
            address = strip (re_sub_spaces address)
        in address)"

subsection \<open>\<^verbatim>\<open>addresses_match\<close> (lines 45 to 81)\<close>

text \<open>The placeholders of lines 52 and 152; the first one is U+00B7.\<close>

definition placeholders :: "string list" where
  "placeholders = [[CHR 0xB7], ''.'', ''-'', ''/'']"

text \<open>
  The last line of the source compares \<^verbatim>\<open>len(common_words)\<close> with
  \<^verbatim>\<open>max(2, len(original_words) * 0.3)\<close> in double precision. For fewer than \<open>10^14\<close> words
  the rounded product compares with an integer as the exact value \<open>3 * n / 10\<close> does, and
  the model compares exactly.
\<close>

definition addresses_match :: "string \<Rightarrow> string \<Rightarrow> bool" where
  "addresses_match original_address api_address =
     (if original_address = [] \<or> api_address = [] then False
      else if strip original_address \<in> set placeholders then False
      else
        let norm_original = clean_address original_address;
            norm_api = clean_address api_address
        in if norm_original = [] \<or> norm_api = [] then False
           else if contains norm_api norm_original \<or> contains norm_original norm_api then True
           else
             let original_words = remdups (split_ws norm_original);
                 api_words = remdups (split_ws norm_api);
                 common_words = filter (\<lambda>w. w \<in> set api_words) original_words;
                 original_cp = re_search_cp original_address;
                 api_cp = re_search_cp api_address
             in if original_cp \<noteq> None \<and> api_cp \<noteq> None \<and> original_cp \<noteq> api_cp then False
                else 2 \<le> length common_words
                     \<and> 3 * length original_words \<le> 10 * length common_words)"


subsection \<open>Exceptions, JSON records and the transport\<close>

text \<open>
  The exceptions that the typed model can raise inside the \<^verbatim>\<open>try\<close> block of
  \<^verbatim>\<open>search_company\<close>. \<open>TransportError\<close> stands for whatever \<^verbatim>\<open>requests.get\<close> raises,
  \<open>JSONDecodeError\<close> for a body that \<^verbatim>\<open>response.json()\<close> rejects.
\<close>

datatype exn = TransportError | JSONDecodeError | ZeroDivisionError | IndexError

text \<open>
  A JSON object of the registry is a record of optional fields: \<open>None\<close> is a key that is
  absent, \<open>Some v\<close> a key with the value \<open>v\<close>, which has the type the spec gives it
  (a present key holds neither \<^verbatim>\<open>null\<close> nor a value of another type). \<open>other_keys\<close>
  says whether the object has keys that the program never reads; it only matters for the
  truth value of the object.
\<close>

record siege_json =
  adresse :: "string option"
  tranche_effectif_salarie :: "string option"

record dirigeant_json =
  annee_de_naissance :: "string option"
  annee_naissance :: "string option"
  nom :: "string option"
  prenoms :: "string option"
  prenom :: "string option"
  qualite :: "string option"
  type_dirigeant :: "string option"

record candidate =
  siren :: "string option"
  nom_complet :: "string option"
  etat_administratif :: "string option"
  date_creation :: "string option"
  objet_social :: "string option"
  description :: "string option"
  activite_principale :: "string option"
  siege :: "siege_json option"
  dirigeants :: "dirigeant_json list option"
  other_keys :: bool

text \<open>\<^verbatim>\<open>d.get(key, default)\<close> on a field.\<close>

definition get :: "'a option \<Rightarrow> 'a \<Rightarrow> 'a" where
  "get field dflt = (case field of None \<Rightarrow> dflt | Some v \<Rightarrow> v)"

text \<open>\<^verbatim>\<open>bool(d)\<close> for a result object: a dictionary is true when it has a key.\<close>

definition truthy :: "candidate \<Rightarrow> bool" where
  "truthy c =
     (siren c \<noteq> None \<or> nom_complet c \<noteq> None \<or> etat_administratif c \<noteq> None
      \<or> date_creation c \<noteq> None \<or> objet_social c \<noteq> None \<or> description c \<noteq> None
      \<or> activite_principale c \<noteq> None \<or> siege c \<noteq> None \<or> dirigeants c \<noteq> None
      \<or> other_keys c)"

text \<open>\<^verbatim>\<open>if x:\<close> for a variable that holds \<^verbatim>\<open>None\<close> or a result object.\<close>

definition truthy_opt :: "candidate option \<Rightarrow> bool" where
  "truthy_opt x = (case x of None \<Rightarrow> False | Some c \<Rightarrow> truthy c)"

text \<open>
  A response of the registry: its status code, and the list \<^verbatim>\<open>data.get('results', [])\<close>
  of its decoded body, or the exception that decoding raises.
\<close>

record response =
  status_code :: nat
  json_results :: "exn + candidate list"

text \<open>
  \<^verbatim>\<open>requests.get(base_url, headers=headers, params=params, timeout=30)\<close>: the transport gets
  the number of the request within this resolution (0 for the search by name, 1 for the
  search by address), the token of the header and the query \<^verbatim>\<open>q\<close>; the other parameters are
  constants. It answers with a response or raises.
\<close>

type_synonym transport = "nat \<Rightarrow> string \<Rightarrow> string \<Rightarrow> exn + response"

subsection \<open>Simplification of the company name (lines 87 to 123)\<close>

definition cities :: "string list" where
  "cities =
     [''PARIS'', ''LYON'', ''MARSEILLE'', ''TOULOUSE'', ''NICE'', ''NANTES'', ''MONTPELLIER'',
      ''STRASBOURG'', ''BORDEAUX'', ''LILLE'', ''RENNES'', ''REIMS'', ''TOULON'', ''GRENOBLE'',
      ''DIJON'', ''ANGERS'', ''N'' @ [CHR 0xCE] @ ''MES'', ''VILLEURBANNE'', ''SAINT-DENIS'',
      ''ASNI'' @ [CHR 0xC8] @ ''RES'', ''CAEN'', ''SAINT-'' @ [CHR 0xC9] @ ''TIENNE'', ''ROUEN'',
      ''NANCY'', ''ORL'' @ [CHR 0xC9] @ ''ANS'', ''LIMOGES'', ''MULHOUSE'', ''SAINT-PAUL'',
      ''ROUBAIX'', ''DUNKERQUE'', ''PERPIGNAN'', ''AMIENS'', ''BOULOGNE'',
      ''BESAN'' @ [CHR 0xC7] @ ''ON'', ''BREST'', ''CANNES'', ''METZ'', ''ANTIBES'', ''HONFLEUR'',
      ''HYMER'', ''FECAMP'']"

text \<open>
  The separators of line 99. The source lists \<^verbatim>\<open>' - '\<close>, \<^verbatim>\<open>' | '\<close>, twice a dash U+2013
  between spaces, \<^verbatim>\<open>' : '\<close> and \<^verbatim>\<open>' / '\<close>. No string of the model contains U+2013, so the two
  entries with it never apply and are not listed.
\<close>

definition separators :: "string list" where
  "separators = ['' - '', '' | '', '' : '', '' / '']"

text \<open>The loop of lines 99 to 103: the first separator of the list that occurs is used.\<close>

fun cut_at_separator :: "string list \<Rightarrow> string \<Rightarrow> string" where
  "cut_at_separator [] simplified_name = simplified_name"
| "cut_at_separator (separator # rest) simplified_name =
     (if contains simplified_name separator
      then strip (before_sep separator simplified_name)
      else cut_at_separator rest simplified_name)"

text \<open>\<^verbatim>\<open>words[-i:]\<close> and \<^verbatim>\<open>words[:-i]\<close> for \<open>i \<ge> 1\<close>.\<close>

definition last_words :: "nat \<Rightarrow> string list \<Rightarrow> string list" where
  "last_words i words = drop (length words - i) words"

definition but_last_words :: "nat \<Rightarrow> string list \<Rightarrow> string list" where
  "but_last_words i words = take (length words - i) words"

text \<open>The loop of lines 118 to 123 over \<^verbatim>\<open>range(1, min(4, len(words)))\<close>.\<close>

fun strip_city :: "string list \<Rightarrow> string \<Rightarrow> nat list \<Rightarrow> string" where
  "strip_city words simplified_name [] = simplified_name"
| "strip_city words simplified_name (i # rest) =
     (let city_candidate = py_upper (join_sp (last_words i words))
      in if city_candidate \<in> set cities
         then strip (join_sp (but_last_words i words))
         else strip_city words simplified_name rest)"

text \<open>
  \<^verbatim>\<open>words[-1]\<close> and \<^verbatim>\<open>words[-2]\<close> are read under \<^verbatim>\<open>len(words) > 1\<close> and
  \<^verbatim>\<open>len(words) > 2\<close>, where they exist.
\<close>

definition simplify_name :: "string \<Rightarrow> string" where
  "simplify_name company_name =
     (let simplified_name = cut_at_separator separators company_name;
          words = split_ws (py_upper simplified_name)
      in if length words > 1 then
           if last words \<in> set cities
              \<or> py_upper (join_sp (last_words 2 words)) \<in> set cities
              \<or> (length words > 2 \<and> py_upper (join_sp (last_words 3 words)) \<in> set cities)
           then
             if length words > 2 \<and> words ! (length words - 2) \<in> set [''ST'', ''SAINT'']
                \<and> last words \<in> set cities
             then
               if length words > 3 then strip (join_sp (but_last_words 2 words))
               else simplified_name
             else strip_city words simplified_name [1..<min 4 (length words)]
           else simplified_name
         else simplified_name)"

subsection \<open>The query of the search by address (lines 152 to 158)\<close>

definition street_types :: "string list" where
  "street_types =
     [''rue'', ''avenue'', ''boulevard'', ''bd'', ''av'', ''rte'', ''route'',
      ''all'' @ [CHR 0xE9] @ ''e'', ''all'', ''chemin'', ''impasse'', ''place'', ''quai'']"

definition address_query :: "string \<Rightarrow> string" where
  "address_query address =
     join_sp (filter (\<lambda>p. list_ex py_isdigit p \<or> py_lower p \<in> set street_types)
                (split_ws address))"

subsection \<open>The choice among the results of the search by address (lines 170 to 227)\<close>

text \<open>
  \<^verbatim>\<open>string_similarity\<close>. The source computes in double precision; the model computes the
  same expression in exact rational arithmetic. The division raises when both strings are
  empty.
\<close>

definition string_similarity :: "string \<Rightarrow> string \<Rightarrow> exn + rat" where
  "string_similarity s1 s2 =
     (let s1 = py_upper s1;
          s2 = py_upper s2;
          common = length (filter (\<lambda>(c1, c2). c1 = c2) (zip s1 s2))
      in if max (length s1) (length s2) = 0 then Inl ZeroDivisionError
         else
           let length_diff =
                 1 - \<bar>of_nat (length s1) - of_nat (length s2)\<bar>
                       / of_nat (max (length s1) (length s2))
           in Inr (of_nat common + length_diff * 5))"

definition electrical_keywords :: "string list" where
  "electrical_keywords =
     [''ELEC'', ''ELECTR'', ''ELECTRIC'', ''ELECTRONIQUE'', ''C'' @ [CHR 0xC2] @ ''BLAGE'',
      ''CABLAGE'', ''CABL'', ''INSTAL'', ''COURANT'', ''TELECOM'', ''ENERGI'', ''ENERGIE'']"

text \<open>Lines 192 to 194 and 198 to 203.\<close>

definition combined_text :: "candidate \<Rightarrow> string" where
  "combined_text result =
     (let result_name = get (nom_complet result) [];
          description = (if get (objet_social result) [] \<noteq> [] then get (objet_social result) []
                         else get (description result) []);
          activite = get (activite_principale result) []
      in py_upper (result_name @ '' '' @ description @ '' '' @ activite))"

definition has_electrical_keyword :: "candidate \<Rightarrow> bool" where
  "has_electrical_keyword result =
     list_ex (\<lambda>keyword. contains (combined_text result) keyword) electrical_keywords"

record address_choice =
  best_match :: "candidate option"
  best_score :: rat
  best_activity_match :: "candidate option"
  best_activity_score :: rat

text \<open>One round of the loop of lines 191 to 213.\<close>

definition address_choice_step ::
    "string \<Rightarrow> address_choice \<Rightarrow> candidate \<Rightarrow> exn + address_choice" where
  "address_choice_step company_name st result =
     (case string_similarity company_name (get (nom_complet result) []) of
        Inl e \<Rightarrow> Inl e
      | Inr score \<Rightarrow>
          let st = (if score > 10 \<and> score > best_score st
                    then st\<lparr>best_score := score, best_match := Some result\<rparr>
                    else st);
              st = (if has_electrical_keyword result
                       \<and> (best_activity_match st = None \<or> score > best_activity_score st)
                    then st\<lparr>best_activity_score := score, best_activity_match := Some result\<rparr>
                    else st)
          in Inr st)"

fun address_choice_loop ::
    "string \<Rightarrow> address_choice \<Rightarrow> candidate list \<Rightarrow> exn + address_choice" where
  "address_choice_loop company_name st [] = Inr st"
| "address_choice_loop company_name st (result # rest) =
     (case address_choice_step company_name st result of
        Inl e \<Rightarrow> Inl e
      | Inr st' \<Rightarrow> address_choice_loop company_name st' rest)"

text \<open>
  Lines 186 to 233: the loop from the initial values, then the decision. \<open>None\<close> is the
  \<^verbatim>\<open>return None\<close> of line 233.
\<close>

definition select_by_address :: "string \<Rightarrow> candidate list \<Rightarrow> exn + candidate option" where
  "select_by_address company_name address_results =
     (case address_choice_loop company_name
             \<lparr>best_match = None, best_score = - 1,
              best_activity_match = None, best_activity_score = - 1\<rparr> address_results of
        Inl e \<Rightarrow> Inl e
      | Inr st \<Rightarrow>
          let selected_match =
                (if truthy_opt (best_match st) then best_match st
                 else if truthy_opt (best_activity_match st) then best_activity_match st
                 else None)
          in Inr (if truthy_opt selected_match then selected_match else None))"

subsection \<open>The best result (lines 244 to 261)\<close>

text \<open>\<^verbatim>\<open>result.get('siege', {}).get('adresse', '')\<close>\<close>

definition api_address_of :: "candidate \<Rightarrow> string" where
  "api_address_of result = get (adresse (get (siege result) \<lparr>adresse = None, tranche_effectif_salarie = None\<rparr>)) []"

text \<open>The loop of lines 248 to 257: it stops at the first result whose address matches.\<close>

fun first_address_match :: "string \<Rightarrow> candidate list \<Rightarrow> candidate option" where
  "first_address_match address [] = None"
| "first_address_match address (result # rest) =
     (if addresses_match address (api_address_of result) then Some result
      else first_address_match address rest)"

definition choose_best :: "string \<Rightarrow> candidate list \<Rightarrow> candidate option" where
  "choose_best address results =
     (case first_address_match address results of
        Some m \<Rightarrow> Some m
      | None \<Rightarrow> (case results of [] \<Rightarrow> None | first # _ \<Rightarrow> Some first))"


subsection \<open>Officers (lines 264 to 364)\<close>

text \<open>Comparison of two strings, \<^verbatim>\<open>a < b\<close>: lexicographic on the code points.\<close>

fun py_str_less :: "string \<Rightarrow> string \<Rightarrow> bool" where
  "py_str_less [] [] = False"
| "py_str_less [] (y # ys) = True"
| "py_str_less (x # xs) [] = False"
| "py_str_less (x # xs) (y # ys) =
     (code_point x < code_point y \<or> (x = y \<and> py_str_less xs ys))"

text \<open>
  \<^verbatim>\<open>int(s)\<close> on a string, in base ten: whitespace around the number is dropped (of the
  whitespace of the range, \<^verbatim>\<open>int\<close> does not accept U+001C to U+001F), then come an optional
  sign and decimal digits, where single underscores may stand between digits. \<open>None\<close> is
  the \<^verbatim>\<open>ValueError\<close>, which the source catches where it calls \<^verbatim>\<open>int\<close>. The limit that
  CPython 3.11 puts on the number of digits (4300) is not modelled.
\<close>

definition int_space :: "char \<Rightarrow> bool" where
  "int_space c = (let n = code_point c in (9 \<le> n \<and> n \<le> 13) \<or> n = 32 \<or> n = 133 \<or> n = 160)"

fun int_body :: "string \<Rightarrow> bool" where
  "int_body [] = False"
| "int_body [c] = py_isdecimal c"
| "int_body (c # d # cs) =
     (py_isdecimal c \<and> (if d = CHR ''_'' then int_body cs else int_body (d # cs)))"

definition digits_value :: "string \<Rightarrow> nat" where
  "digits_value s = foldl (\<lambda>acc c. 10 * acc + (code_point c - 48)) 0 s"

definition py_int :: "string \<Rightarrow> int option" where
  "py_int s =
     (let t = rev (dropWhile int_space (rev (dropWhile int_space s)));
          negative = (t \<noteq> [] \<and> hd t = CHR ''-'');
          body = (if t \<noteq> [] \<and> (hd t = CHR ''-'' \<or> hd t = CHR ''+'') then tl t else t)
      in if int_body body
         then Some ((if negative then - 1 else 1)
                    * int (digits_value (filter (\<lambda>c. c \<noteq> CHR ''_'') body)))
         else None)"

text \<open>\<^verbatim>\<open>str(n)\<close> for an integer, as the f-strings of lines 322 and 402 format it.\<close>

fun nat_digits :: "nat \<Rightarrow> string" where
  "nat_digits n =
     (if n < 10 then [char_of (48 + n)]
      else nat_digits (n div 10) @ [char_of (48 + n mod 10)])"

declare nat_digits.simps [simp del]

definition py_str_int :: "int \<Rightarrow> string" where
  "py_str_int i = (if i < 0 then CHR ''-'' # nat_digits (nat (- i)) else nat_digits (nat i))"

text \<open>Lines 320 to 324 and 400 to 404: the age, or the empty string when \<^verbatim>\<open>int\<close> raises.\<close>

definition age_of :: "int \<Rightarrow> string \<Rightarrow> string" where
  "age_of annee_actuelle annee =
     (case py_int annee of
        None \<Rightarrow> []
      | Some y \<Rightarrow> py_str_int (annee_actuelle - y) @ '' ans'')"

text \<open>The dictionary \<^verbatim>\<open>dirigeant_info\<close> of line 301.\<close>

record dirigeant_info =
  info_nom :: string
  info_prenoms :: string
  info_premier_prenom :: string
  info_qualite :: string
  info_annee :: string
  info_age :: string
  info_est_personne_morale :: bool
  info_identifiant :: string

text \<open>
  Line 295. \<^verbatim>\<open>prenoms.split()[0]\<close> raises \<^verbatim>\<open>IndexError\<close> on a list without elements.
\<close>

definition premier_prenom_of :: "string \<Rightarrow> exn + string" where
  "premier_prenom_of s =
     (if s \<noteq> [] \<and> contains s '' ''
      then (case split_ws s of [] \<Rightarrow> Inl IndexError | w # _ \<Rightarrow> Inr w)
      else Inr s)"

text \<open>The marks of a legal person in a name, line 298.\<close>

definition legal_forms :: "string list" where
  "legal_forms = [''SA'', ''SAS'', ''SARL'', ''SCI'', ''EURL'']"

text \<open>
  Lines 283 to 324: what one round of the loop reads from an officer. The fields of the
  record it returns are also the values of the local variables \<^verbatim>\<open>nom\<close>,
  \<^verbatim>\<open>premier_prenom\<close>, \<^verbatim>\<open>qualite\<close> and \<^verbatim>\<open>annee\<close> after line 324. \<open>annee_actuelle\<close> is
  \<^verbatim>\<open>datetime.now().year\<close>.
\<close>

definition dirigeant_info_of :: "int \<Rightarrow> dirigeant_json \<Rightarrow> exn + dirigeant_info" where
  "dirigeant_info_of annee_actuelle dirigeant =
     (let annee = (case annee_de_naissance dirigeant of
                     Some v \<Rightarrow> v
                   | None \<Rightarrow> get (annee_naissance dirigeant) []);
          nom = strip (get (nom dirigeant) []);
          prenoms = strip (case prenoms dirigeant of
                             Some v \<Rightarrow> v
                           | None \<Rightarrow> get (prenom dirigeant) []);
          qualite = strip (get (qualite dirigeant) []);
          type_dirigeant = get (type_dirigeant dirigeant) []
      in case premier_prenom_of prenoms of
           Inl e \<Rightarrow> Inl e
         | Inr premier_prenom \<Rightarrow>
             let est_personne_morale =
                   (type_dirigeant = ''personne_morale''
                    \<or> (prenoms = [] \<and> list_ex (\<lambda>f. contains nom f) legal_forms));
                 nom = (if nom \<noteq> [] \<and> contains nom ''('' \<and> contains nom '')''
                        then strip (before_sep ''('' nom) else nom);
                 age = (if annee \<noteq> [] then age_of annee_actuelle annee else [])
             in Inr \<lparr>info_nom = nom, info_prenoms = prenoms,
                     info_premier_prenom = premier_prenom, info_qualite = qualite,
                     info_annee = annee, info_age = age,
                     info_est_personne_morale = est_personne_morale,
                     info_identifiant = nom @ ''_'' @ premier_prenom\<rparr>)"

text \<open>
  Lines 326 to 338: an officer whose identifier is already in the list replaces the entry
  (\<^verbatim>\<open>dict.update\<close> with a dictionary of the same keys) when its first names are longer, and
  is dropped otherwise; an officer with a new identifier goes to the end of the list.
\<close>

fun merge_dirigeant :: "dirigeant_info \<Rightarrow> dirigeant_info list \<Rightarrow> dirigeant_info list" where
  "merge_dirigeant dirigeant_info [] = [dirigeant_info]"
| "merge_dirigeant dirigeant_info (dir_existant # rest) =
     (if info_identifiant dir_existant = info_identifiant dirigeant_info
      then (if length (info_prenoms dir_existant) < length (info_prenoms dirigeant_info)
            then dirigeant_info # rest
            else dir_existant # rest)
      else dir_existant # merge_dirigeant dirigeant_info rest)"

text \<open>The variables that the loop over the officers updates.\<close>

record officers =
  nom_dirigeant :: string
  prenom_dirigeant :: string
  qualite_dirigeant :: string
  annee_naissance_max :: string
  autres_dirigeants :: "dirigeant_info list"

definition initial_officers :: officers where
  "initial_officers =
     \<lparr>nom_dirigeant = [], prenom_dirigeant = [], qualite_dirigeant = [],
      annee_naissance_max = ''0'', autres_dirigeants = []\<rparr>"

text \<open>Lines 326 to 351 for one officer. \<^verbatim>\<open>annee > annee_naissance_max\<close> compares strings.\<close>

definition officer_step :: "officers \<Rightarrow> dirigeant_info \<Rightarrow> officers" where
  "officer_step st d =
     (let st = st\<lparr>autres_dirigeants := merge_dirigeant d (autres_dirigeants st)\<rparr>;
          st = (if nom_dirigeant st = [] \<and> prenom_dirigeant st = [] \<and> info_nom d \<noteq> []
                then st\<lparr>nom_dirigeant := info_nom d,
                        prenom_dirigeant := info_premier_prenom d,
                        qualite_dirigeant := info_qualite d\<rparr>
                else st);
          st = (if info_annee d \<noteq> []
                   \<and> (annee_naissance_max st = []
                       \<or> py_str_less (annee_naissance_max st) (info_annee d))
                then st\<lparr>annee_naissance_max := info_annee d,
                        nom_dirigeant := info_nom d,
                        prenom_dirigeant := info_premier_prenom d,
                        qualite_dirigeant := info_qualite d\<rparr>
                else st)
      in st)"

text \<open>
  The loop of line 281. The string \<^verbatim>\<open>dirigeants_str\<close> that lines 353 to 366 build is never
  read afterwards and building it raises nothing; it is left out.
\<close>

fun process_dirigeants :: "int \<Rightarrow> officers \<Rightarrow> dirigeant_json list \<Rightarrow> exn + officers" where
  "process_dirigeants annee_actuelle st [] = Inr st"
| "process_dirigeants annee_actuelle st (dirigeant # rest) =
     (case dirigeant_info_of annee_actuelle dirigeant of
        Inl e \<Rightarrow> Inl e
      | Inr d \<Rightarrow> process_dirigeants annee_actuelle (officer_step st d) rest)"

subsection \<open>The result (lines 263 to 447)\<close>

definition tranche_effectif_map :: "(string \<times> string) list" where
  "tranche_effectif_map =
     [(''NN'', ''Unit'' @ [CHR 0xE9] @ '' non-employeuse ou pr'' @ [CHR 0xE9] @ ''sum''
               @ [CHR 0xE9] @ ''e non-employeuse''),
      (''00'', ''0 salari'' @ [CHR 0xE9] @ '' (a employ'' @ [CHR 0xE9] @ '' des salari''
               @ [CHR 0xE9] @ ''s)''),
      (''01'', ''1 ou 2 salari'' @ [CHR 0xE9] @ ''s''),
      (''02'', ''3 '' @ [CHR 0xE0] @ '' 5 salari'' @ [CHR 0xE9] @ ''s''),
      (''03'', ''6 '' @ [CHR 0xE0] @ '' 9 salari'' @ [CHR 0xE9] @ ''s''),
      (''11'', ''10 '' @ [CHR 0xE0] @ '' 19 salari'' @ [CHR 0xE9] @ ''s''),
      (''12'', ''20 '' @ [CHR 0xE0] @ '' 49 salari'' @ [CHR 0xE9] @ ''s''),
      (''21'', ''50 '' @ [CHR 0xE0] @ '' 99 salari'' @ [CHR 0xE9] @ ''s''),
      (''22'', ''100 '' @ [CHR 0xE0] @ '' 199 salari'' @ [CHR 0xE9] @ ''s''),
      (''31'', ''200 '' @ [CHR 0xE0] @ '' 249 salari'' @ [CHR 0xE9] @ ''s''),
      (''32'', ''250 '' @ [CHR 0xE0] @ '' 499 salari'' @ [CHR 0xE9] @ ''s''),
      (''41'', ''500 '' @ [CHR 0xE0] @ '' 999 salari'' @ [CHR 0xE9] @ ''s''),
      (''42'', ''1000 '' @ [CHR 0xE0] @ '' 1999 salari'' @ [CHR 0xE9] @ ''s''),
      (''51'', ''2000 '' @ [CHR 0xE0] @ '' 4999 salari'' @ [CHR 0xE9] @ ''s''),
      (''52'', ''5000 '' @ [CHR 0xE0] @ '' 9999 salari'' @ [CHR 0xE9] @ ''s''),
      (''53'', ''10000 salari'' @ [CHR 0xE9] @ ''s et plus'')]"

text \<open>An entry of \<^verbatim>\<open>autres_dirigeants_result\<close> (lines 418 to 424).\<close>

record alt_dirigeant =
  alt_nom :: string
  alt_prenoms :: string
  alt_qualite :: string
  alt_age :: string
  alt_est_personne_morale :: bool

definition alt_of :: "dirigeant_info \<Rightarrow> alt_dirigeant" where
  "alt_of dirigeant =
     \<lparr>alt_nom = info_nom dirigeant, alt_prenoms = info_premier_prenom dirigeant,
      alt_qualite = info_qualite dirigeant, alt_age = info_age dirigeant,
      alt_est_personne_morale = info_est_personne_morale dirigeant\<rparr>"

text \<open>The dictionary that \<^verbatim>\<open>search_company\<close> returns (lines 432 to 447).\<close>

record result =
  res_siren :: string
  res_nom_raison_sociale :: string
  res_adresse :: string
  res_etat_administratif :: string
  res_tranche_effectif_code :: string
  res_tranche_effectif :: string
  res_date_creation :: string
  res_annee_creation :: string
  res_nom_dirigeant :: string
  res_prenom_dirigeant :: string
  res_qualite_dirigeant :: string
  res_age_dirigeant :: string
  res_match_adresse :: string
  res_autres_dirigeants :: "alt_dirigeant list"

text \<open>
  Lines 264 to 447 for the chosen result, the variable \<^verbatim>\<open>best_match\<close> of line 245 (\<open>best\<close>
  here, as \<open>best_match\<close> already names the variable of line 186). The loop over the officers runs under
  \<^verbatim>\<open>if dirigeants:\<close>; on the empty list it would change nothing.
\<close>

definition assemble :: "int \<Rightarrow> string \<Rightarrow> candidate \<Rightarrow> exn + result" where
  "assemble annee_actuelle address best =
     (case process_dirigeants annee_actuelle initial_officers (get (dirigeants best) []) of
        Inl e \<Rightarrow> Inl e
      | Inr st \<Rightarrow>
          let api_address = api_address_of best;
              address_match = addresses_match address api_address;
              tranche_effectif_code =
                get (tranche_effectif_salarie
                       (get (siege best)
                          \<lparr>adresse = None, tranche_effectif_salarie = None\<rparr>)) [];
              tranche_effectif_desc =
                get (map_of tranche_effectif_map tranche_effectif_code) ''null'';
              age = (if annee_naissance_max st \<noteq> [] \<and> annee_naissance_max st \<noteq> ''0''
                     then age_of annee_actuelle (annee_naissance_max st) else []);
              autres_dirigeants_filtres =
                filter (\<lambda>d. \<not> (info_nom d = nom_dirigeant st
                               \<and> info_premier_prenom d = prenom_dirigeant st))
                  (autres_dirigeants st);
              autres_dirigeants_result =
                map alt_of
                  (take (min 5 (length autres_dirigeants_filtres)) autres_dirigeants_filtres);
              date_creation_complete = get (date_creation best) [];
              annee_creation =
                (if date_creation_complete \<noteq> [] \<and> length date_creation_complete \<ge> 4
                 then take 4 date_creation_complete else [])
          in Inr \<lparr>res_siren = get (siren best) [],
                  res_nom_raison_sociale = get (nom_complet best) [],
                  res_adresse = api_address,
                  res_etat_administratif = get (etat_administratif best) [],
                  res_tranche_effectif_code = tranche_effectif_code,
                  res_tranche_effectif = tranche_effectif_desc,
                  res_date_creation = annee_creation,
                  res_annee_creation = annee_creation,
                  res_nom_dirigeant = nom_dirigeant st,
                  res_prenom_dirigeant = prenom_dirigeant st,
                  res_qualite_dirigeant = qualite_dirigeant st,
                  res_age_dirigeant = age,
                  res_match_adresse = (if address_match then ''Oui'' else ''Non''),
                  res_autres_dirigeants = autres_dirigeants_result\<rparr>)"

text \<open>Lines 244 to 450: from the list of results to the returned value.\<close>

definition resolve_results :: "int \<Rightarrow> string \<Rightarrow> candidate list \<Rightarrow> exn + result option" where
  "resolve_results annee_actuelle address results =
     (if truthy_opt (choose_best address results)
      then (case choose_best address results of
              None \<Rightarrow> Inr None
            | Some best \<Rightarrow>
                (case assemble annee_actuelle address best of
                   Inl e \<Rightarrow> Inl e
                 | Inr r \<Rightarrow> Inr (Some r)))
      else Inr None)"

subsection \<open>\<^verbatim>\<open>search_company\<close> (lines 83 to 458)\<close>

text \<open>
  Lines 151 to 242, the search by address that follows an empty answer to the search by
  name: \<open>Inr (Some m)\<close> is the assignment \<^verbatim>\<open>results = [selected_match]\<close> of line 229,
  \<open>Inr None\<close> one of the \<^verbatim>\<open>return None\<close> of lines 233 to 242.
\<close>

definition search_by_address ::
    "transport \<Rightarrow> string \<Rightarrow> string \<Rightarrow> string \<Rightarrow> exn + candidate option" where
  "search_by_address transport company_name address token =
     (if address \<noteq> [] \<and> strip address \<notin> set placeholders then
        let address_search = address_query address
        in if strip address_search \<noteq> [] then
             (case transport 1 token address_search of
                Inl e \<Rightarrow> Inl e
              | Inr address_response \<Rightarrow>
                  if status_code address_response = 200 then
                    (case json_results address_response of
                       Inl e \<Rightarrow> Inl e
                     | Inr address_results \<Rightarrow>
                         if address_results \<noteq> []
                         then select_by_address company_name address_results
                         else Inr None)
                  else Inr None)
           else Inr None
      else Inr None)"

text \<open>
  The body of the \<^verbatim>\<open>try\<close> statement (lines 141 to 454). \<open>Inr None\<close> is a \<^verbatim>\<open>return None\<close>,
  \<open>Inl e\<close> an exception that leaves the body.
\<close>

definition search_body ::
    "transport \<Rightarrow> int \<Rightarrow> string \<Rightarrow> string \<Rightarrow> string \<Rightarrow> string \<Rightarrow> exn + result option" where
  "search_body transport annee_actuelle company_name address token simplified_name =
     (case transport 0 token simplified_name of
        Inl e \<Rightarrow> Inl e
      | Inr response \<Rightarrow>
          if status_code response = 200 then
            (case json_results response of
               Inl e \<Rightarrow> Inl e
             | Inr results \<Rightarrow>
                 if results = [] then
                   (case search_by_address transport company_name address token of
                      Inl e \<Rightarrow> Inl e
                    | Inr None \<Rightarrow> Inr None
                    | Inr (Some selected_match) \<Rightarrow>
                        resolve_results annee_actuelle address [selected_match])
                 else resolve_results annee_actuelle address results)
          else Inr None)"

text \<open>
  The whole function: the name is simplified before the \<^verbatim>\<open>try\<close>; \<^verbatim>\<open>except Exception\<close>
  (lines 456 to 458) turns every exception of the body into \<^verbatim>\<open>return None\<close>. The value
  \<open>Inl e\<close> would be an exception that reaches the caller.
\<close>

definition search_company ::
    "transport \<Rightarrow> int \<Rightarrow> string \<Rightarrow> string \<Rightarrow> string \<Rightarrow> exn + result option" where
  "search_company transport annee_actuelle company_name address token =
     (let simplified_name = simplify_name company_name
      in case search_body transport annee_actuelle company_name address token simplified_name of
           Inl e \<Rightarrow> Inr None
         | Inr r \<Rightarrow> Inr r)"


section \<open>Notions used in the statements and proofs\<close>

text \<open>
  The maximal runs of word characters of a string, from left to right. The normal form
  of an address is made of these runs.
\<close>

function word_runs :: "string \<Rightarrow> string list" where
  "word_runs s =
     (case dropWhile (\<lambda>x. \<not> is_word x) s of
        [] \<Rightarrow> []
      | c # cs \<Rightarrow> (c # takeWhile is_word cs) # word_runs (dropWhile is_word cs))"
  by pat_completeness auto
termination
proof (relation "measure length", goal_cases)
  case 1
  show ?case by simp
next
  case (2 s c cs)
  have "length (dropWhile is_word cs) \<le> length cs"
    by (rule length_dropWhile_le)
  moreover have "length (c # cs) \<le> length s"
    using length_dropWhile_le [of "\<lambda>x. \<not> is_word x" s] 2 by simp
  ultimately show ?case by simp
qed

declare word_runs.simps [simp del]

text \<open>The six substitutions of \<^verbatim>\<open>clean_address\<close>, applied in their order to one word.\<close>

definition abbreviate :: "string \<Rightarrow> string" where
  "abbreviate w =
     (if w = ''BOULEVARD'' then ''BD''
      else if w = ''AVENUE'' then ''AV''
      else if w = ''ROUTE'' then ''RTE''
      else if w = ''RUE'' then ''R''
      else if w = ''SAINT'' then ''ST''
      else if w = ''SAINTE'' then ''STE''
      else w)"

text \<open>
  What the transport did: the search is unavailable when the request raises or the status
  is not 200; it returns a list when the status is 200 and the body decodes to that list.
\<close>

definition search_unavailable :: "exn + response \<Rightarrow> bool" where
  "search_unavailable x = (case x of Inl e \<Rightarrow> True | Inr r \<Rightarrow> status_code r \<noteq> 200)"

definition search_returns :: "exn + response \<Rightarrow> candidate list \<Rightarrow> bool" where
  "search_returns x results =
     (case x of Inl e \<Rightarrow> False | Inr r \<Rightarrow> status_code r = 200 \<and> json_results r = Inr results)"

text \<open>A string that is not empty and has word characters only.\<close>

definition is_word_string :: "string \<Rightarrow> bool" where
  "is_word_string w = (w \<noteq> [] \<and> list_all is_word w)"


section \<open>Properties\<close>

subsection \<open>Characters\<close>

lemma code_point_less: "code_point c < 256"
  by (simp add: code_point_def)

lemma word_not_space: "is_word c \<Longrightarrow> \<not> py_isspace c"
  by (auto simp: is_word_def py_isalnum_def py_isspace_def code_point_def Let_def)

lemma space_is_space: "py_isspace CHR '' ''"
  by (simp add: py_isspace_def code_point_def)

lemma space_not_word: "\<not> is_word CHR '' ''"
  by (simp add: is_word_def py_isalnum_def code_point_def)

lemma upper_char_fixed:
  assumes "d \<in> set (py_upper_char c)"
  shows "py_upper_char d = [d]"
proof -
  have lt: "code_point c < 256" by (rule code_point_less)
  consider (low) "(97 \<le> code_point c \<and> code_point c \<le> 122)
                   \<or> (224 \<le> code_point c \<and> code_point c \<le> 254 \<and> code_point c \<noteq> 247)"
    | (ss) "code_point c = 223"
    | (same) "\<not> ((97 \<le> code_point c \<and> code_point c \<le> 122)
                   \<or> (224 \<le> code_point c \<and> code_point c \<le> 254 \<and> code_point c \<noteq> 247))"
             "code_point c \<noteq> 223"
    by blast
  then show ?thesis
  proof cases
    case low
    then have d: "d = char_of (code_point c - 32)"
      using assms by (auto simp: py_upper_char_def Let_def)
    have "(code_point c - 32) mod 256 = code_point c - 32"
      using lt by (intro mod_less) arith
    then have "code_point d = code_point c - 32"
      by (simp add: d code_point_def)
    then show ?thesis
      using low by (auto simp: py_upper_char_def Let_def)
  next
    case ss
    then have "d = CHR ''S''"
      using assms by (auto simp: py_upper_char_def Let_def)
    then show ?thesis
      by (simp add: py_upper_char_def code_point_def)
  next
    case same
    then have "d = c"
      using assms by (auto simp: py_upper_char_def Let_def)
    then show ?thesis
      using same by (auto simp: py_upper_char_def Let_def)
  qed
qed


subsection \<open>Word runs\<close>

lemma word_runs_Nil: "word_runs [] = []"
  by (simp add: word_runs.simps)

lemma word_runs_sep: "\<not> is_word d \<Longrightarrow> word_runs (d # s) = word_runs s"
  by (simp add: word_runs.simps [of "d # s"] word_runs.simps [of s])

lemma word_runs_word:
  "is_word c \<Longrightarrow> word_runs (c # s) = (c # takeWhile is_word s) # word_runs (dropWhile is_word s)"
  by (simp add: word_runs.simps [of "c # s"])

lemma word_runs_append:
  assumes "is_word_string w" and "x = [] \<or> \<not> is_word (hd x)"
  shows "word_runs (w @ x) = w # word_runs x"
proof -
  obtain c v where w: "w = c # v" and c: "is_word c" and v: "\<forall>a\<in>set v. is_word a"
    using assms(1) by (cases w) (auto simp: is_word_string_def list_all_iff)
  have t: "takeWhile is_word (v @ x) = v"
    using v assms(2) by (cases x) (auto simp: takeWhile_append)
  have d: "dropWhile is_word (v @ x) = x"
    using v assms(2) by (cases x) (auto simp: dropWhile_append)
  show ?thesis
    by (simp add: w word_runs_word [OF c] t d)
qed

lemma word_runs_are_words: "w \<in> set (word_runs s) \<Longrightarrow> is_word_string w \<and> set w \<subseteq> set s"
proof (induction s rule: word_runs.induct)
  case (1 s)
  show ?case
  proof (cases "dropWhile (\<lambda>x. \<not> is_word x) s")
    case Nil
    with "1.prems" show ?thesis by (simp add: word_runs.simps [of s])
  next
    case (Cons c cs)
    then have c: "is_word c"
      using hd_dropWhile [of "\<lambda>x. \<not> is_word x" s] by auto
    have sub: "set (c # cs) \<subseteq> set s"
      using set_dropWhileD [of _ "\<lambda>x. \<not> is_word x" s] Cons by auto
    from "1.prems" Cons
    have "w = c # takeWhile is_word cs \<or> w \<in> set (word_runs (dropWhile is_word cs))"
      by (simp add: word_runs.simps [of s])
    then show ?thesis
    proof
      assume w: "w = c # takeWhile is_word cs"
      have "set (takeWhile is_word cs) \<subseteq> set cs"
        by (rule set_takeWhileD [THEN conjunct1, THEN subsetI [where A = "set (takeWhile is_word cs)"]]) 
      then show ?thesis
        using c sub by (auto simp: w is_word_string_def list_all_iff dest: set_takeWhileD)
    next
      assume "w \<in> set (word_runs (dropWhile is_word cs))"
      then have "is_word_string w \<and> set w \<subseteq> set (dropWhile is_word cs)"
        using "1.IH" Cons by simp
      then show ?thesis
        using sub set_dropWhileD [of _ is_word cs] by auto
    qed
  qed
qed

subsection \<open>The substitution of a word\<close>

lemma sub_inside_word:
  assumes "\<forall>a\<in>set v. is_word a" and "x = [] \<or> \<not> is_word (hd x)"
  shows "re_sub_word_from p r True (v @ x) = v @ re_sub_word_from p r True x"
  using assms(1)
proof (induction v)
  case Nil
  show ?case by simp
next
  case (Cons c v)
  then have "\<not> word_boundary True (c # v @ x)"
    by (simp add: word_boundary_def)
  with Cons show ?case by simp
qed

lemma sub_at_sep:
  assumes "\<not> is_word d" and "is_word_string p"
  shows "re_sub_word_from p r pw (d # x) = d # re_sub_word_from p r False x"
proof -
  have "\<not> prefix p (d # x)"
    using assms by (cases p) (auto simp: is_word_string_def)
  with assms(1) show ?thesis by simp
qed

lemma prefix_word_eq:
  assumes p: "is_word_string p" and w: "is_word_string w"
    and x: "x = [] \<or> \<not> is_word (hd x)"
    and pre: "prefix p (w @ x)"
    and bnd: "word_boundary True (drop (length p) (w @ x))"
  shows "w = p"
proof -
  have pw: "\<forall>a\<in>set p. is_word a" and ww: "\<forall>a\<in>set w. is_word a"
    using p w by (auto simp: is_word_string_def list_all_iff)
  from pre have "prefix p w \<or> (\<exists>q. q \<noteq> [] \<and> prefix q x \<and> p = w @ q)"
    by (auto simp: prefix_append)
  then show ?thesis
  proof
    assume "prefix p w"
    then obtain v where v: "w = p @ v" by (auto simp: prefix_def)
    have "drop (length p) (w @ x) = v @ x" by (simp add: v)
    with bnd have "v @ x = [] \<or> \<not> is_word (hd (v @ x))"
      by (cases "v @ x") (auto simp: word_boundary_def)
    then have "v = []"
      using ww v by (cases v) auto
    with v show ?thesis by simp
  next
    assume "\<exists>q. q \<noteq> [] \<and> prefix q x \<and> p = w @ q"
    then obtain q where q: "q \<noteq> []" "prefix q x" "p = w @ q" by blast
    then have "hd q = hd x" "x \<noteq> []" "hd q \<in> set p"
      by (cases q; cases x; auto)+
    with x pw show ?thesis by auto
  qed
qed

lemma sub_at_word:
  assumes p: "is_word_string p" and w: "is_word_string w"
    and x: "x = [] \<or> \<not> is_word (hd x)"
  shows "re_sub_word_from p r False (w @ x)
         = (if w = p then r else w) @ re_sub_word_from p r True x"
proof -
  obtain c v where wc: "w = c # v" and c: "is_word c" and v: "\<forall>a\<in>set v. is_word a"
    using w by (cases w) (auto simp: is_word_string_def list_all_iff)
  have plast: "is_word (last p)" and pne: "p \<noteq> []"
    using p by (auto simp: is_word_string_def list_all_iff)
  show ?thesis
  proof (cases "w = p")
    case True
    have b1: "word_boundary False (c # v @ x)"
      using c by (simp add: word_boundary_def)
    have b2: "word_boundary True (drop (length p) (c # v @ x))"
      using x True wc by (cases x) (auto simp: word_boundary_def)
    have d: "drop (length p - 1) (v @ x) = x"
      using True wc by auto
    have pre: "prefix p (c # v @ x)"
      using True wc by auto
    have "re_sub_word_from p r False (c # v @ x)
          = r @ re_sub_word_from p r (is_word (last p)) (drop (length p - 1) (v @ x))"
      by (simp only: re_sub_word_from.simps b1 b2 pre plast pne simp_thms if_True)
    then have "re_sub_word_from p r False (w @ x) = r @ re_sub_word_from p r True x"
      by (simp only: d plast wc append_Cons)
    then show ?thesis
      by (simp add: True)
  next
    case False
    have "\<not> (prefix p (w @ x) \<and> word_boundary True (drop (length p) (w @ x)))"
      using prefix_word_eq [OF p w x] False by blast
    then have "re_sub_word_from p r False (w @ x) = c # re_sub_word_from p r True (v @ x)"
      using plast c by (auto simp: wc)
    then show ?thesis
      using False sub_inside_word [OF v x] by (simp add: wc)
  qed
qed


lemma word_runs_skip:
  "\<forall>a\<in>set seps. \<not> is_word a \<Longrightarrow> word_runs (seps @ y) = word_runs y"
  by (induction seps) (simp_all add: word_runs_sep)

lemma sub_over_seps:
  assumes "is_word_string p"
  shows "\<forall>a\<in>set seps. \<not> is_word a \<Longrightarrow>
         re_sub_word_from p r pw (seps @ u) = seps @ re_sub_word_from p r (pw \<and> seps = []) u"
proof (induction seps arbitrary: pw)
  case Nil
  show ?case by simp
next
  case (Cons d seps)
  then have "re_sub_word_from p r pw ((d # seps) @ u)
             = d # re_sub_word_from p r False (seps @ u)"
    using sub_at_sep [OF _ assms] by simp
  with Cons show ?case by simp
qed

lemma split_at_word:
  assumes "dropWhile (\<lambda>x. \<not> is_word x) s = c # cs"
  shows "is_word c"
    and "s = takeWhile (\<lambda>x. \<not> is_word x) s @ (c # takeWhile is_word cs) @ dropWhile is_word cs"
    and "is_word_string (c # takeWhile is_word cs)"
    and "dropWhile is_word cs = [] \<or> \<not> is_word (hd (dropWhile is_word cs))"
proof -
  show c: "is_word c"
    using hd_dropWhile [of "\<lambda>x. \<not> is_word x" s] assms by auto
  have "s = takeWhile (\<lambda>x. \<not> is_word x) s @ dropWhile (\<lambda>x. \<not> is_word x) s"
    by simp
  then show "s = takeWhile (\<lambda>x. \<not> is_word x) s @ (c # takeWhile is_word cs) @ dropWhile is_word cs"
    by (simp add: assms)
  show "is_word_string (c # takeWhile is_word cs)"
    using c by (auto simp: is_word_string_def list_all_iff dest: set_takeWhileD)
  show "dropWhile is_word cs = [] \<or> \<not> is_word (hd (dropWhile is_word cs))"
    using hd_dropWhile [of is_word cs] by blast
qed

lemma word_runs_sub:
  assumes p: "is_word_string p" and r: "is_word_string r"
  shows "\<not> pw \<or> s = [] \<or> \<not> is_word (hd s) \<Longrightarrow>
         word_runs (re_sub_word_from p r pw s)
         = map (\<lambda>w. if w = p then r else w) (word_runs s)"
proof (induction s arbitrary: pw rule: word_runs.induct)
  case (1 s)
  let ?seps = "takeWhile (\<lambda>x. \<not> is_word x) s"
  have seps: "\<forall>a\<in>set ?seps. \<not> is_word a"
    by (auto dest: set_takeWhileD)
  show ?case
  proof (cases "dropWhile (\<lambda>x. \<not> is_word x) s")
    case Nil
    then have "\<forall>a\<in>set s. \<not> is_word a" by simp
    then have "re_sub_word_from p r pw (s @ []) = s @ re_sub_word_from p r (pw \<and> s = []) []"
      by (rule sub_over_seps [OF p])
    then have "re_sub_word_from p r pw s = s" by simp
    then show ?thesis by (simp add: word_runs.simps [of s] Nil)
  next
    case (Cons c cs)
    let ?w = "c # takeWhile is_word cs" and ?rest = "dropWhile is_word cs"
    note parts = split_at_word [OF Cons]
    have "\<not> (pw \<and> ?seps = [])"
    proof
      assume a: "pw \<and> ?seps = []"
      then have "s = c # cs" using Cons parts(2) by simp
      with a "1.prems" parts(1) show False by simp
    qed
    then have pw': "(pw \<and> ?seps = []) = False" by simp
    have s: "s = ?seps @ ?w @ ?rest" by (rule parts(2))
    have "re_sub_word_from p r pw (?seps @ ?w @ ?rest)
          = ?seps @ re_sub_word_from p r (pw \<and> ?seps = []) (?w @ ?rest)"
      by (rule sub_over_seps [OF p seps])
    also have "\<dots> = ?seps @ re_sub_word_from p r False (?w @ ?rest)"
      by (simp only: pw')
    also have "\<dots> = ?seps @ (if ?w = p then r else ?w) @ re_sub_word_from p r True ?rest"
      by (simp only: sub_at_word [OF p parts(3) parts(4)])
    finally have e: "re_sub_word_from p r pw s
          = ?seps @ (if ?w = p then r else ?w) @ re_sub_word_from p r True ?rest"
      using s by simp
    have x: "re_sub_word_from p r True ?rest = []
             \<or> \<not> is_word (hd (re_sub_word_from p r True ?rest))"
    proof (cases ?rest)
      case Nil
      then show ?thesis by (simp only: re_sub_word_from.simps simp_thms)
    next
      case (Cons d ds)
      then have "\<not> is_word d" using parts(4) by simp
      then show ?thesis using Cons sub_at_sep [OF _ p] by simp
    qed
    have ws: "is_word_string (if ?w = p then r else ?w)"
      using r parts(3) by simp
    have ih: "word_runs (re_sub_word_from p r True ?rest)
              = map (\<lambda>w. if w = p then r else w) (word_runs ?rest)"
      using "1.IH" [OF Cons, of True] parts(4) by simp
    have "word_runs (re_sub_word_from p r pw s)
          = (if ?w = p then r else ?w) # word_runs (re_sub_word_from p r True ?rest)"
      by (simp only: e word_runs_skip [OF seps] word_runs_append [OF ws x])
    then show ?thesis
      by (simp add: ih word_runs.simps [of s] Cons)
  qed
qed


subsection \<open>Punctuation and whitespace\<close>

lemma special_space_iff: "py_isspace (if is_word c \<or> py_isspace c then c else CHR '' '') \<longleftrightarrow> \<not> is_word c"
  using word_not_space [of c] space_is_space by auto

lemma squeeze_word:
  "is_word c \<Longrightarrow> re_sub_spaces (re_sub_special (c # x)) = c # re_sub_spaces (re_sub_special x)"
  using word_not_space [of c] by (simp add: re_sub_special_def)

lemma squeeze_words:
  "\<forall>a\<in>set w. is_word a \<Longrightarrow>
   re_sub_spaces (re_sub_special (w @ x)) = w @ re_sub_spaces (re_sub_special x)"
  by (induction w) (simp_all add: squeeze_word)

lemma squeeze_sep:
  assumes "\<not> is_word d"
  shows "re_sub_spaces (re_sub_special (d # x))
         = CHR '' '' # re_sub_spaces (re_sub_special (dropWhile (\<lambda>a. \<not> is_word a) x))"
proof -
  have "py_isspace (if is_word d \<or> py_isspace d then d else CHR '' '')"
    by (rule iffD2 [OF special_space_iff assms])
  moreover have "dropWhile py_isspace (re_sub_special x)
                 = re_sub_special (dropWhile (\<lambda>a. \<not> is_word a) x)"
    unfolding re_sub_special_def dropWhile_map comp_def special_space_iff ..
  ultimately show ?thesis
    by (simp add: re_sub_special_def)
qed

lemma squeeze_seps_spaces:
  "\<forall>a\<in>set t. \<not> is_word a \<Longrightarrow> \<forall>a\<in>set (re_sub_spaces (re_sub_special t)). py_isspace a"
proof (cases t)
  case Nil
  then show ?thesis by (simp add: re_sub_special_def)
next
  case (Cons d ds)
  assume a: "\<forall>a\<in>set t. \<not> is_word a"
  then have dn: "dropWhile (\<lambda>a. \<not> is_word a) ds = []" and nd: "\<not> is_word d"
    by (simp_all add: Cons)
  have "re_sub_spaces (re_sub_special (d # ds)) = CHR '' '' # re_sub_spaces (re_sub_special [])"
    by (simp only: squeeze_sep [OF nd] dn)
  then have "re_sub_spaces (re_sub_special (d # ds)) = [CHR '' '']"
    by (simp add: re_sub_special_def)
  then show ?thesis
    by (simp add: Cons space_is_space)
qed

lemma lstrip_squeeze:
  "lstrip (re_sub_spaces (re_sub_special t))
   = re_sub_spaces (re_sub_special (dropWhile (\<lambda>a. \<not> is_word a) t))"
proof -
  have start: "lstrip (re_sub_spaces (re_sub_special u)) = re_sub_spaces (re_sub_special u)"
    if "u = [] \<or> is_word (hd u)" for u
  proof (cases u)
    case Nil
    then show ?thesis by (simp add: lstrip_def re_sub_special_def)
  next
    case (Cons c cs)
    with that have "is_word c" by simp
    then show ?thesis
      using word_not_space [of c] by (simp add: Cons squeeze_word lstrip_def)
  qed
  have u: "dropWhile (\<lambda>a. \<not> is_word a) v = [] \<or> is_word (hd (dropWhile (\<lambda>a. \<not> is_word a) v))"
    for v
    using hd_dropWhile [of "\<lambda>a. \<not> is_word a" v] by blast
  show ?thesis
  proof (cases t)
    case Nil
    then show ?thesis by (simp add: lstrip_def re_sub_special_def)
  next
    case (Cons d ds)
    show ?thesis
    proof (cases "is_word d")
      case True
      then show ?thesis using start [of t] Cons by simp
    next
      case False
      have "lstrip (re_sub_spaces (re_sub_special t))
            = lstrip (re_sub_spaces (re_sub_special (dropWhile (\<lambda>a. \<not> is_word a) ds)))"
        using False space_is_space by (simp add: Cons squeeze_sep lstrip_def)
      also have "\<dots> = re_sub_spaces (re_sub_special (dropWhile (\<lambda>a. \<not> is_word a) ds))"
        by (rule start [OF u])
      finally show ?thesis using False by (simp add: Cons)
    qed
  qed
qed

lemma rstrip_spaces: "\<forall>a\<in>set x. py_isspace a \<Longrightarrow> rstrip (w @ x) = rstrip w"
  by (simp add: rstrip_def dropWhile_append)

lemma rstrip_word: "w \<noteq> [] \<Longrightarrow> \<not> py_isspace (last w) \<Longrightarrow> rstrip w = w"
  by (cases w rule: rev_cases) (simp_all add: rstrip_def)

lemma rstrip_append: "rstrip x \<noteq> [] \<Longrightarrow> rstrip (a @ x) = a @ rstrip x"
  by (auto simp: rstrip_def dropWhile_append)

lemma join_sp_Cons: "ws \<noteq> [] \<Longrightarrow> join_sp (w # ws) = w @ CHR '' '' # join_sp ws"
  by (cases ws) simp_all

lemma join_sp_nonempty: "ws \<noteq> [] \<Longrightarrow> \<forall>w\<in>set ws. w \<noteq> [] \<Longrightarrow> join_sp ws \<noteq> []"
  by (cases ws rule: join_sp.cases) auto

lemma strip_squeeze: "strip (re_sub_spaces (re_sub_special t)) = join_sp (word_runs t)"
proof (induction t rule: word_runs.induct)
  case (1 s)
  let ?u = "dropWhile (\<lambda>x. \<not> is_word x) s"
  have l: "strip (re_sub_spaces (re_sub_special s)) = rstrip (re_sub_spaces (re_sub_special ?u))"
    by (simp add: strip_def lstrip_squeeze)
  show ?case
  proof (cases ?u)
    case Nil
    then show ?thesis
      by (simp only: l word_runs.simps [of s] list.case) (simp add: rstrip_def re_sub_special_def)
  next
    case (Cons c cs)
    let ?w = "c # takeWhile is_word cs" and ?rest = "dropWhile is_word cs"
    note parts = split_at_word [OF Cons]
    have w: "\<forall>a\<in>set ?w. is_word a" "?w \<noteq> []" "\<not> py_isspace (last ?w)"
      using parts(3) word_not_space [of "last ?w"] last_in_set [of ?w]
      by (auto simp: is_word_string_def list_all_iff simp del: last.simps)
    have u: "?u = ?w @ ?rest"
      by (simp add: Cons)
    have sq: "re_sub_spaces (re_sub_special ?u) = ?w @ re_sub_spaces (re_sub_special ?rest)"
      by (simp only: u squeeze_words [OF w(1)])
    have runs: "word_runs s = ?w # word_runs ?rest"
      by (simp add: word_runs.simps [of s] Cons)
    have ih: "strip (re_sub_spaces (re_sub_special ?rest)) = join_sp (word_runs ?rest)"
      using "1.IH" [OF Cons] .
    show ?thesis
    proof (cases "word_runs ?rest = []")
      case True
      then have "dropWhile (\<lambda>x. \<not> is_word x) ?rest = []"
        by (simp add: word_runs.simps [of ?rest] split: list.splits)
      then have "\<forall>a\<in>set ?rest. \<not> is_word a" by simp
      then have "\<forall>a\<in>set (re_sub_spaces (re_sub_special ?rest)). py_isspace a"
        by (rule squeeze_seps_spaces)
      then have "rstrip (?w @ re_sub_spaces (re_sub_special ?rest)) = rstrip ?w"
        by (rule rstrip_spaces)
      also have "\<dots> = ?w" by (rule rstrip_word [OF w(2) w(3)])
      finally show ?thesis
        by (simp only: l sq runs True join_sp.simps)
    next
      case False
      have ne: "?rest \<noteq> []"
      proof
        assume "?rest = []"
        then have "word_runs ?rest = []" by (simp only: word_runs_Nil)
        with False show False ..
      qed
      then obtain d ds where rest: "?rest = d # ds" by (cases ?rest) auto
      then have d: "\<not> is_word d" using parts(4) by simp
      have "(\<forall>v\<in>set (word_runs ?rest). v \<noteq> [])"
        using word_runs_are_words by (auto simp: is_word_string_def)
      then have jn: "join_sp (word_runs ?rest) \<noteq> []"
        using False by (intro join_sp_nonempty) auto
      have a1: "re_sub_spaces (re_sub_special ?rest)
            = CHR '' '' # re_sub_spaces (re_sub_special (dropWhile (\<lambda>a. \<not> is_word a) ds))"
        by (simp only: rest squeeze_sep [OF d])
      have a2: "dropWhile (\<lambda>a. \<not> is_word a) ?rest = dropWhile (\<lambda>a. \<not> is_word a) ds"
        using d by (simp add: rest)
      have a3: "CHR '' '' # lstrip (re_sub_spaces (re_sub_special ?rest))
            = CHR '' '' # re_sub_spaces (re_sub_special (dropWhile (\<lambda>a. \<not> is_word a) ds))"
        by (simp only: lstrip_squeeze a2)
      have "re_sub_spaces (re_sub_special ?rest)
            = CHR '' '' # lstrip (re_sub_spaces (re_sub_special ?rest))"
        by (rule trans [OF a1 a3 [symmetric]])
      then have "rstrip (?w @ re_sub_spaces (re_sub_special ?rest))
            = rstrip ((?w @ [CHR '' '']) @ lstrip (re_sub_spaces (re_sub_special ?rest)))"
        by simp
      also have "\<dots> = (?w @ [CHR '' '']) @ rstrip (lstrip (re_sub_spaces (re_sub_special ?rest)))"
        using jn ih by (intro rstrip_append) (simp add: strip_def)
      also have "\<dots> = ?w @ CHR '' '' # join_sp (word_runs ?rest)"
        using ih by (simp add: strip_def)
      finally show ?thesis
        by (simp only: l sq runs join_sp_Cons [OF False])
    qed
  qed
qed


subsection \<open>The normal form of an address\<close>

lemma is_word_string_literals:
  "is_word_string ''BOULEVARD''" "is_word_string ''BD''"
  "is_word_string ''AVENUE''" "is_word_string ''AV''"
  "is_word_string ''ROUTE''" "is_word_string ''RTE''"
  "is_word_string ''RUE''" "is_word_string ''R''"
  "is_word_string ''SAINT''" "is_word_string ''ST''"
  "is_word_string ''SAINTE''" "is_word_string ''STE''"
  by (simp_all add: is_word_string_def is_word_def py_isalnum_def code_point_def)

lemma abbreviate_chain:
  "((\<lambda>w. if w = ''SAINTE'' then ''STE'' else w)
    \<circ> ((\<lambda>w. if w = ''SAINT'' then ''ST'' else w)
    \<circ> ((\<lambda>w. if w = ''RUE'' then ''R'' else w)
    \<circ> ((\<lambda>w. if w = ''ROUTE'' then ''RTE'' else w)
    \<circ> ((\<lambda>w. if w = ''AVENUE'' then ''AV'' else w)
    \<circ> (\<lambda>w. if w = ''BOULEVARD'' then ''BD'' else w)))))) = abbreviate"
  by (rule ext) (simp add: abbreviate_def)

lemma clean_address_runs:
  "clean_address s = join_sp (map abbreviate (word_runs (py_upper s)))"
proof (cases "s = []")
  case True
  then show ?thesis
    by (simp add: clean_address_def py_upper_def word_runs_Nil)
next
  case False
  note sub = word_runs_sub [where pw = False, simplified, folded re_sub_word_def]
  have "clean_address s
        = join_sp (word_runs
            (re_sub_word ''SAINTE'' ''STE'' (re_sub_word ''SAINT'' ''ST''
              (re_sub_word ''RUE'' ''R'' (re_sub_word ''ROUTE'' ''RTE''
                (re_sub_word ''AVENUE'' ''AV'' (re_sub_word ''BOULEVARD'' ''BD''
                  (py_upper s))))))))"
    using False by (simp only: clean_address_def Let_def if_False strip_squeeze)
  also have "\<dots> = join_sp (map abbreviate (word_runs (py_upper s)))"
    by (simp only: sub is_word_string_literals map_map abbreviate_chain)
  finally show ?thesis .
qed

lemma abbreviate_word: "is_word_string w \<Longrightarrow> is_word_string (abbreviate w)"
  using is_word_string_literals by (simp add: abbreviate_def)

lemma abbreviate_idem: "abbreviate (abbreviate w) = abbreviate w"
  by (simp add: abbreviate_def)

lemma abbreviate_fixed:
  assumes "\<forall>c\<in>set w. py_upper_char c = [c]"
  shows "\<forall>c\<in>set (abbreviate w). py_upper_char c = [c]"
proof -
  have "\<forall>c\<in>set ''BDAVRTES''. py_upper_char c = [c]"
    by (simp add: py_upper_char_def code_point_def)
  then show ?thesis
    using assms by (auto simp: abbreviate_def)
qed

lemma py_upper_fixed: "\<forall>c\<in>set t. py_upper_char c = [c] \<Longrightarrow> py_upper t = t"
  by (induction t) (simp_all add: py_upper_def)

lemma py_upper_chars_fixed: "c \<in> set (py_upper s) \<Longrightarrow> py_upper_char c = [c]"
  by (auto simp: py_upper_def dest: upper_char_fixed)

lemma set_join_sp: "set (join_sp ws) \<subseteq> insert CHR '' '' (\<Union>w\<in>set ws. set w)"
  by (induction ws rule: join_sp.induct) auto

lemma word_runs_join_sp:
  "\<forall>w\<in>set ws. is_word_string w \<Longrightarrow> word_runs (join_sp ws) = ws"
proof (induction ws rule: join_sp.induct)
  case 1
  show ?case by (simp add: word_runs_Nil)
next
  case (2 w)
  then show ?case
    using word_runs_append [of w "[]"] by (simp add: word_runs_Nil)
next
  case (3 w v ws)
  then have "word_runs (w @ CHR '' '' # join_sp (v # ws))
             = w # word_runs (CHR '' '' # join_sp (v # ws))"
    using space_not_word by (intro word_runs_append) simp_all
  with 3 show ?case
    by (simp add: word_runs_sep [OF space_not_word])
qed


text \<open>
  Claim C9. Address normalization is idempotent: for every string \<open>s\<close>,
  \<^verbatim>\<open>clean_address(clean_address(s))\<close> equals \<^verbatim>\<open>clean_address(s)\<close>; every output of the
  normalizer is a fixed point of the normalizer.
\<close>

theorem clean_address_idempotent: "clean_address (clean_address s) = clean_address s"
proof -
  let ?ws = "map abbreviate (word_runs (py_upper s))"
  have words: "\<forall>w\<in>set ?ws. is_word_string w"
    using word_runs_are_words abbreviate_word by auto
  have "\<forall>c\<in>set (abbreviate w). py_upper_char c = [c]"
    if "w \<in> set (word_runs (py_upper s))" for w
  proof (rule abbreviate_fixed, rule ballI)
    fix c
    assume "c \<in> set w"
    then have "c \<in> set (py_upper s)"
      using word_runs_are_words [OF that] by auto
    then show "py_upper_char c = [c]"
      by (rule py_upper_chars_fixed)
  qed
  then have "\<forall>w\<in>set ?ws. \<forall>c\<in>set w. py_upper_char c = [c]"
    by simp
  moreover have "py_upper_char CHR '' '' = '' ''"
    by (simp add: py_upper_char_def code_point_def)
  ultimately have "\<forall>c\<in>set (join_sp ?ws). py_upper_char c = [c]"
    using set_join_sp [of ?ws] by auto
  then have up: "py_upper (join_sp ?ws) = join_sp ?ws"
    by (rule py_upper_fixed)
  have "clean_address (clean_address s)
        = join_sp (map abbreviate (word_runs (py_upper (join_sp ?ws))))"
    by (simp only: clean_address_runs)
  also have "\<dots> = join_sp (map abbreviate ?ws)"
    by (simp only: up word_runs_join_sp [OF words])
  also have "\<dots> = join_sp ?ws"
    by (simp add: abbreviate_idem comp_def)
  finally show ?thesis
    by (simp only: clean_address_runs)
qed

theorem clean_address_idempotent_witness:
  "clean_address ''12, avenue Saint-Jean (B)'' = ''12 AV ST JEAN B''
   \<and> clean_address (clean_address ''12, avenue Saint-Jean (B)'')
       = clean_address ''12, avenue Saint-Jean (B)''"
proof -
  have "clean_address ''12, avenue Saint-Jean (B)'' = ''12 AV ST JEAN B''"
    by code_simp
  then show ?thesis
    using clean_address_idempotent [of "''12, avenue Saint-Jean (B)''"] by simp
qed

end
